theory Spec2Isabelle
  imports Complex_Main "HOL-Library.AList" "HOL-Library.Product_Lexorder"
begin

section \<open>Python values used by modulo4_horarios.py\<close>

text \<open>
  The exceptions the module can raise: \<open>ValueError\<close> is raised by
  \<open>generate_daily_schedule\<close> itself, \<open>OverflowError\<close> by \<open>datetime\<close> arithmetic that
  leaves the years 1..9999, \<open>IndexError\<close> by \<open>self.thresholds[-1]\<close> on an empty list and
  \<open>KeyError\<close> by \<open>schedules[route]\<close> on a missing key.
\<close>

datatype error = ValueError | OverflowError | IndexError | KeyError

text \<open>
  \<open>datetime.time\<close> (naive): its four fields. Python only builds values with
  \<open>0 \<le> hour < 24\<close>, \<open>0 \<le> minute < 60\<close>, \<open>0 \<le> second < 60\<close> and
  \<open>0 \<le> microsecond < 1000000\<close>; \<open>valid_time\<close> is that invariant.
\<close>

record time =
  hour :: int
  minute :: int
  second :: int
  microsecond :: int

definition time_hm :: "int \<Rightarrow> int \<Rightarrow> time" where
  \<comment> \<open>\<open>time(h, m)\<close>: seconds and microseconds default to 0\<close>
  "time_hm h m = \<lparr>hour = h, minute = m, second = 0, microsecond = 0\<rparr>"

definition valid_time :: "time \<Rightarrow> bool" where
  "valid_time t \<longleftrightarrow>
     0 \<le> hour t \<and> hour t < 24 \<and> 0 \<le> minute t \<and> minute t < 60 \<and>
     0 \<le> second t \<and> second t < 60 \<and> 0 \<le> microsecond t \<and> microsecond t < 1000000"

text \<open>
  Naive times compare as the tuples \<open>(hour, minute, second, microsecond)\<close>, that is
  lexicographically.
\<close>

definition time_tuple :: "time \<Rightarrow> int \<times> int \<times> int \<times> int" where
  "time_tuple t = (hour t, minute t, second t, microsecond t)"

definition time_le :: "time \<Rightarrow> time \<Rightarrow> bool" where
  "time_le a b \<longleftrightarrow> time_tuple a \<le> time_tuple b"

definition time_ge :: "time \<Rightarrow> time \<Rightarrow> bool" where
  "time_ge a b \<longleftrightarrow> time_tuple b \<le> time_tuple a"


text \<open>
  \<open>datetime.date\<close> is represented by its proleptic Gregorian ordinal
  (\<open>date.toordinal()\<close>): 1 is 0001-01-01 and \<open>MAXORDINAL\<close> is 9999-12-31. The module
  never looks at year, month or day; it only combines a date with a time and adds
  durations. A naive \<open>datetime.datetime\<close> is a date and a time.
\<close>

definition MAXORDINAL :: int where
  "MAXORDINAL = 3652059"

definition valid_date :: "int \<Rightarrow> bool" where
  "valid_date d \<longleftrightarrow> 1 \<le> d \<and> d \<le> MAXORDINAL"

record datetime =
  dt_date :: int
  dt_time :: time

definition valid_datetime :: "datetime \<Rightarrow> bool" where
  "valid_datetime dt \<longleftrightarrow> valid_date (dt_date dt) \<and> valid_time (dt_time dt)"

definition combine :: "int \<Rightarrow> time \<Rightarrow> datetime" where
  "combine d t = \<lparr>dt_date = d, dt_time = t\<rparr>"

text \<open>
  A \<open>timedelta\<close> is determined by its total number of microseconds; the constructor is
  called with \<open>minutes\<close>, \<open>seconds\<close> and \<open>microseconds\<close> only.
\<close>

type_synonym timedelta = int

definition timedelta :: "int \<Rightarrow> int \<Rightarrow> int \<Rightarrow> timedelta" where
  "timedelta minutes seconds microseconds =
     minutes * 60000000 + seconds * 1000000 + microseconds"

text \<open>
  \<open>datetime + timedelta\<close> as CPython computes it: the datetime becomes a duration since
  ordinal 0 (days, then the time of day), the durations are added and normalised
  (floor division), and the result is rebuilt when its day is in \<open>1..MAXORDINAL\<close>;
  otherwise \<open>OverflowError\<close> is raised. (A \<open>timedelta\<close> too large to be built also
  raises \<open>OverflowError\<close>; every sum with one is out of range here as well.)
  \<open>datetime - timedelta\<close> adds the negated duration.
\<close>

definition time_us :: "time \<Rightarrow> int" where
  "time_us t = ((hour t * 60 + minute t) * 60 + second t) * 1000000 + microsecond t"

definition dt_us :: "datetime \<Rightarrow> int" where
  "dt_us dt = dt_date dt * 86400000000 + time_us (dt_time dt)"

definition time_of_us :: "int \<Rightarrow> time" where
  "time_of_us r =
     \<lparr>hour = r div 3600000000, minute = r div 60000000 mod 60,
      second = r div 1000000 mod 60, microsecond = r mod 1000000\<rparr>"

definition dt_of_us :: "int \<Rightarrow> datetime" where
  "dt_of_us us =
     \<lparr>dt_date = us div 86400000000, dt_time = time_of_us (us mod 86400000000)\<rparr>"

definition dt_add :: "datetime \<Rightarrow> timedelta \<Rightarrow> error + datetime" where
  "dt_add dt td =
     (let us = dt_us dt + td; days = us div 86400000000 in
      if 0 < days \<and> days \<le> MAXORDINAL then Inr (dt_of_us us) else Inl OverflowError)"

definition dt_sub :: "datetime \<Rightarrow> timedelta \<Rightarrow> error + datetime" where
  "dt_sub dt td = dt_add dt (- td)"

section \<open>SimpleDemandByHour\<close>

text \<open>
  Floats are only stored, compared and clamped by the module (no float arithmetic), so
  they are modelled as reals; the literals of the tables are distinct decimals.
\<close>

record SimpleDemandByHour =
  by_hour :: "int \<rightharpoonup> real"
  base :: real

definition range_dict :: "int \<Rightarrow> int \<Rightarrow> real \<Rightarrow> (int \<rightharpoonup> real)" where
  \<comment> \<open>\<open>{h: v for h in range(a, b)}\<close>\<close>
  "range_dict a b v = map_of (map (\<lambda>h. (h, v)) [a..b - 1])"

definition default_by_hour :: "int \<rightharpoonup> real" where
  "default_by_hour =
     range_dict 0 5 0.25 ++ range_dict 5 7 0.6 ++ range_dict 7 9 0.9 ++
     range_dict 9 12 0.5 ++ [12 \<mapsto> 0.7, 13 \<mapsto> 0.7] ++ range_dict 14 17 0.55 ++
     range_dict 17 20 0.95 ++ range_dict 20 24 0.4"

definition SimpleDemandByHour_init :: "(int \<rightharpoonup> real) option \<Rightarrow> real \<Rightarrow> SimpleDemandByHour" where
  \<comment> \<open>the dataclass constructor followed by \<open>__post_init__\<close>; \<open>base\<close> defaults to 0.4\<close>
  "SimpleDemandByHour_init by_hour_arg base_arg =
     \<lparr>by_hour = (case by_hour_arg of None \<Rightarrow> default_by_hour | Some m \<Rightarrow> m),
      base = base_arg\<rparr>"

definition get_demand_score :: "SimpleDemandByHour \<Rightarrow> string \<Rightarrow> datetime \<Rightarrow> real" where
  "get_demand_score self route_name at_dt =
     max 0 (min 1 (case by_hour self (hour (dt_time at_dt)) of
                     None \<Rightarrow> base self | Some v \<Rightarrow> v))"

section \<open>ThresholdHeadwayPolicy\<close>

record ThresholdHeadwayPolicy =
  thresholds :: "(real \<times> int) list"
  min_headway :: int
  max_headway :: int

definition default_thresholds :: "(real \<times> int) list" where
  "default_thresholds = [(0.85, 8), (0.70, 10), (0.50, 15), (0.30, 20), (0.00, 30)]"

definition ThresholdHeadwayPolicy_init ::
  "(real \<times> int) list option \<Rightarrow> int \<Rightarrow> int \<Rightarrow> ThresholdHeadwayPolicy" where
  \<comment> \<open>the constructor followed by \<open>__post_init__\<close>: a stable sort, descending by
      threshold; \<open>min_headway\<close> defaults to 6 and \<open>max_headway\<close> to 60\<close>
  "ThresholdHeadwayPolicy_init thresholds_arg mn mx =
     \<lparr>thresholds = sort_key (\<lambda>x. - fst x)
        (case thresholds_arg of None \<Rightarrow> default_thresholds | Some l \<Rightarrow> l),
      min_headway = mn, max_headway = mx\<rparr>"

definition get_headway_minutes ::
  "ThresholdHeadwayPolicy \<Rightarrow> string \<Rightarrow> datetime \<Rightarrow> real \<Rightarrow> error + int" where
  "get_headway_minutes self route_name at_dt demand_score =
     (case find (\<lambda>(thr, hw). demand_score \<ge> thr) (thresholds self) of
        Some (thr, hw) \<Rightarrow> Inr (max (min_headway self) (min (max_headway self) hw))
      | None \<Rightarrow>
          (case thresholds self of
             [] \<Rightarrow> Inl IndexError
           | _ \<Rightarrow> Inr (max (min_headway self)
                        (min (max_headway self) (snd (last (thresholds self)))))))"

section \<open>ServiceWindow and ScheduleOptions\<close>

record ServiceWindow =
  sw_start :: time
  sw_end :: time


record ScheduleOptions =
  service_window :: ServiceWindow
  fixed_headway_min :: "int option"
  round_to_minutes :: "int option"

section \<open>Rounding and schedule generation\<close>

definition round_dt :: "datetime \<Rightarrow> int option \<Rightarrow> error + datetime" where
  "round_dt dt rtm =
     (case rtm of
        None \<Rightarrow> Inr dt
      | Some g \<Rightarrow>
          if g = 0 \<or> g \<le> 1 then Inr dt
          else
            let discard = timedelta (minute (dt_time dt) mod g) (second (dt_time dt))
                            (microsecond (dt_time dt))
            in dt_sub dt discard)"

type_synonym DemandProvider = "string \<Rightarrow> datetime \<Rightarrow> real"
type_synonym HeadwayPolicy = "string \<Rightarrow> datetime \<Rightarrow> real \<Rightarrow> error + int"
type_synonym schedules = "(string \<times> datetime list) list"

text \<open>
  Lines 109 to 117: the headway of this iteration and the next value of \<open>current\<close>.
  \<open>if options.round_to_minutes\<close> is false for \<open>None\<close> and for 0.
\<close>

definition truthy :: "int option \<Rightarrow> bool" where
  "truthy v \<longleftrightarrow> (case v of None \<Rightarrow> False | Some n \<Rightarrow> n \<noteq> 0)"

definition headway_for ::
  "ScheduleOptions \<Rightarrow> DemandProvider \<Rightarrow> HeadwayPolicy \<Rightarrow> string \<Rightarrow> datetime \<Rightarrow> error + int" where
  "headway_for options dp hp route current =
     (case fixed_headway_min options of
        Some h \<Rightarrow> Inr h
      | None \<Rightarrow> (let demand = dp route current in hp route current demand))"

definition advance ::
  "ScheduleOptions \<Rightarrow> DemandProvider \<Rightarrow> HeadwayPolicy \<Rightarrow> string \<Rightarrow> datetime \<Rightarrow> error + datetime" where
  "advance options dp hp route current =
     (case headway_for options dp hp route current of
        Inl e \<Rightarrow> Inl e
      | Inr headway_min \<Rightarrow>
          (case dt_add current (timedelta headway_min 0 0) of
             Inl e \<Rightarrow> Inl e
           | Inr current' \<Rightarrow>
               if truthy (round_to_minutes options)
               then round_dt current' (round_to_minutes options)
               else Inr current'))"

text \<open>
  The \<open>while\<close> loop of one route. The dictionary is an association list in insertion
  order; \<open>schedules[route].append(current)\<close> replaces the entry of \<open>route\<close> in place.
  The loop may run forever, so it is a partial function: \<open>None\<close> is "does not return".
\<close>

partial_function (option) while_loop ::
  "ScheduleOptions \<Rightarrow> DemandProvider \<Rightarrow> HeadwayPolicy \<Rightarrow> string \<Rightarrow> datetime \<Rightarrow> schedules
     \<Rightarrow> (error + schedules) option" where
  "while_loop options dp hp route current schedules =
     (if time_le (dt_time current) (sw_end (service_window options)) then
        (case map_of schedules route of
           None \<Rightarrow> Some (Inl KeyError)
         | Some departures \<Rightarrow>
             (case advance options dp hp route current of
                Inl e \<Rightarrow> Some (Inl e)
              | Inr current' \<Rightarrow>
                  while_loop options dp hp route current'
                    (AList.update route (departures @ [current]) schedules)))
      else Some (Inr schedules))"

declare while_loop.simps [code]

fun for_routes ::
  "ScheduleOptions \<Rightarrow> int \<Rightarrow> DemandProvider \<Rightarrow> HeadwayPolicy \<Rightarrow> string list \<Rightarrow> schedules
     \<Rightarrow> (error + schedules) option" where
  "for_routes options service_day dp hp [] schedules = Some (Inr schedules)"
| "for_routes options service_day dp hp (route # routes) schedules =
     (case round_dt (combine service_day (sw_start (service_window options)))
             (round_to_minutes options) of
        Inl e \<Rightarrow> Some (Inl e)
      | Inr current \<Rightarrow>
          (case while_loop options dp hp route current schedules of
             None \<Rightarrow> None
           | Some (Inl e) \<Rightarrow> Some (Inl e)
           | Some (Inr schedules') \<Rightarrow> for_routes options service_day dp hp routes schedules'))"

text \<open>
  An object passed as \<open>demand_provider\<close> or \<open>headway_policy\<close>: its truth value
  (\<open>bool(obj)\<close>, false only when its class defines \<open>__bool__\<close> or \<open>__len__\<close> so) and
  its method. \<open>x or Default()\<close> takes the default for \<open>None\<close> and for a false object.
  Instances of the module's two dataclasses are true.
\<close>

record DemandProviderObject =
  provider_bool :: bool
  provider_get_demand_score :: DemandProvider

record HeadwayPolicyObject =
  policy_bool :: bool
  policy_get_headway_minutes :: HeadwayPolicy

definition provider_or_default :: "DemandProviderObject option \<Rightarrow> DemandProvider" where
  \<comment> \<open>\<open>demand_provider or SimpleDemandByHour()\<close>\<close>
  "provider_or_default demand_provider =
     (case demand_provider of
        None \<Rightarrow> get_demand_score (SimpleDemandByHour_init None 0.4)
      | Some p \<Rightarrow>
          if provider_bool p then provider_get_demand_score p
          else get_demand_score (SimpleDemandByHour_init None 0.4))"

definition policy_or_default :: "HeadwayPolicyObject option \<Rightarrow> HeadwayPolicy" where
  \<comment> \<open>\<open>headway_policy or ThresholdHeadwayPolicy()\<close>\<close>
  "policy_or_default headway_policy =
     (case headway_policy of
        None \<Rightarrow> get_headway_minutes (ThresholdHeadwayPolicy_init None 6 60)
      | Some p \<Rightarrow>
          if policy_bool p then policy_get_headway_minutes p
          else get_headway_minutes (ThresholdHeadwayPolicy_init None 6 60))"

definition empty_schedules :: "string list \<Rightarrow> schedules" where
  \<comment> \<open>\<open>{r: [] for r in routes}\<close>: a repeated key keeps its first position\<close>
  "empty_schedules routes = foldl (\<lambda>s r. AList.update r [] s) [] routes"

definition generate_daily_schedule ::
  "string list \<Rightarrow> int \<Rightarrow> ScheduleOptions \<Rightarrow> DemandProviderObject option
     \<Rightarrow> HeadwayPolicyObject option \<Rightarrow> (error + schedules) option" where
  "generate_daily_schedule routes service_day options demand_provider headway_policy =
     (if time_ge (sw_start (service_window options)) (sw_end (service_window options))
      then Some (Inl ValueError)
      else
        let dp = provider_or_default demand_provider;
            hp = policy_or_default headway_policy;
            schedules = empty_schedules routes
        in for_routes options service_day dp hp routes schedules)"


text \<open>
  The values of \<open>current\<close> at which the body of the \<open>while\<close> loop runs when the loop
  is entered with \<open>start\<close>: these are the timestamps at which a headway is used.
\<close>

inductive loop_visits ::
  "ScheduleOptions \<Rightarrow> DemandProvider \<Rightarrow> HeadwayPolicy \<Rightarrow> string \<Rightarrow> datetime \<Rightarrow> datetime
     \<Rightarrow> bool"
  for options dp hp route start where
  visits_start:
    "time_le (dt_time start) (sw_end (service_window options))
     \<Longrightarrow> loop_visits options dp hp route start start"
| visits_step:
    "loop_visits options dp hp route start current
     \<Longrightarrow> advance options dp hp route current = Inr current'
     \<Longrightarrow> time_le (dt_time current') (sw_end (service_window options))
     \<Longrightarrow> loop_visits options dp hp route start current'"

definition headways_used_ge ::
  "ScheduleOptions \<Rightarrow> DemandProvider \<Rightarrow> HeadwayPolicy \<Rightarrow> string \<Rightarrow> datetime \<Rightarrow> int \<Rightarrow> bool" where
  \<comment> \<open>every headway the loop uses is at least \<open>k\<close>\<close>
  "headways_used_ge options dp hp route start k \<longleftrightarrow>
     (\<forall>current h. loop_visits options dp hp route start current \<longrightarrow>
        headway_for options dp hp route current = Inr h \<longrightarrow> k \<le> h)"

definition headways_used_le ::
  "ScheduleOptions \<Rightarrow> DemandProvider \<Rightarrow> HeadwayPolicy \<Rightarrow> string \<Rightarrow> datetime \<Rightarrow> int \<Rightarrow> bool" where
  \<comment> \<open>every headway the loop uses is at most \<open>k\<close>\<close>
  "headways_used_le options dp hp route start k \<longleftrightarrow>
     (\<forall>current h. loop_visits options dp hp route start current \<longrightarrow>
        headway_for options dp hp route current = Inr h \<longrightarrow> h \<le> k)"

section \<open>Rounded timestamps\<close>

text \<open>
  \<open>_round_dt\<close> with a granularity \<open>g > 1\<close> discards \<open>minute mod g\<close> minutes, the seconds
  and the microseconds: less than \<open>min g 60\<close> minutes. \<open>rounding_step\<close> is the least
  headway, in minutes, that is sure to move \<open>current\<close> forward through the rounding;
  \<open>aligned\<close> says that a time is a result of the rounding.
\<close>

definition rounding_step :: "int option \<Rightarrow> int" where
  "rounding_step rtm = (case rtm of None \<Rightarrow> 1 | Some g \<Rightarrow> if g \<le> 1 then 1 else min g 60)"

definition aligned :: "int option \<Rightarrow> time \<Rightarrow> bool" where
  "aligned rtm t \<longleftrightarrow>
     (case rtm of
        None \<Rightarrow> True
      | Some g \<Rightarrow> 1 < g \<longrightarrow> minute t mod g = 0 \<and> second t = 0 \<and> microsecond t = 0)"

section \<open>Example inputs\<close>

definition options_scenario_B :: ScheduleOptions where
  \<comment> \<open>window 07:00-09:00, no fixed headway, no rounding\<close>
  "options_scenario_B =
     \<lparr>service_window = \<lparr>sw_start = time_hm 7 0, sw_end = time_hm 9 0\<rparr>,
      fixed_headway_min = None, round_to_minutes = None\<rparr>"



definition options_coarse_rounding :: ScheduleOptions where
  \<comment> \<open>window 07:00-09:00, no fixed headway, rounding to 15 minutes\<close>
  "options_coarse_rounding =
     \<lparr>service_window = \<lparr>sw_start = time_hm 7 0, sw_end = time_hm 9 0\<rparr>,
      fixed_headway_min = None, round_to_minutes = Some 15\<rparr>"

definition options_zero_headway :: ScheduleOptions where
  \<comment> \<open>window 07:00-09:00, a fixed headway of 0 minutes, no rounding\<close>
  "options_zero_headway =
     \<lparr>service_window = \<lparr>sw_start = time_hm 7 0, sw_end = time_hm 9 0\<rparr>,
      fixed_headway_min = Some 0, round_to_minutes = None\<rparr>"

definition options_negative_headway :: ScheduleOptions where
  \<comment> \<open>window 07:00-08:00, a fixed headway of minus 60 minutes, no rounding\<close>
  "options_negative_headway =
     \<lparr>service_window = \<lparr>sw_start = time_hm 7 0, sw_end = time_hm 8 0\<rparr>,
      fixed_headway_min = Some (- 60), round_to_minutes = None\<rparr>"


definition options_round_ten :: ScheduleOptions where
  \<comment> \<open>window 09:00-10:00, no fixed headway, rounding to 10 minutes\<close>
  "options_round_ten =
     \<lparr>service_window = \<lparr>sw_start = time_hm 9 0, sw_end = time_hm 10 0\<rparr>,
      fixed_headway_min = None, round_to_minutes = Some 10\<rparr>"

section \<open>Times and datetimes as microsecond counts\<close>

lemma time_us_range:
  assumes "valid_time t"
  shows "0 \<le> time_us t \<and> time_us t < 86400000000"
  using assms unfolding valid_time_def time_us_def by auto

lemma time_of_us_time_us:
  assumes "valid_time t"
  shows "time_of_us (time_us t) = t"
proof -
  let ?T = "time_us t"
  have v: "0 \<le> hour t" "hour t < 24" "0 \<le> minute t" "minute t < 60"
    "0 \<le> second t" "second t < 60" "0 \<le> microsecond t" "microsecond t < 1000000"
    using assms by (auto simp: valid_time_def)
  have h: "?T div 3600000000 = hour t"
    by (rule int_div_pos_eq [where r = "(minute t * 60 + second t) * 1000000 + microsecond t"])
       (use v in \<open>auto simp: time_us_def\<close>)
  have m1: "?T div 60000000 = hour t * 60 + minute t"
    by (rule int_div_pos_eq [where r = "second t * 1000000 + microsecond t"])
       (use v in \<open>auto simp: time_us_def\<close>)
  have m: "?T div 60000000 mod 60 = minute t"
    unfolding m1 by (rule int_mod_pos_eq [where q = "hour t"]) (use v in auto)
  have s1: "?T div 1000000 = (hour t * 60 + minute t) * 60 + second t"
    by (rule int_div_pos_eq [where r = "microsecond t"])
       (use v in \<open>auto simp: time_us_def\<close>)
  have s: "?T div 1000000 mod 60 = second t"
    unfolding s1 by (rule int_mod_pos_eq [where q = "hour t * 60 + minute t"]) (use v in auto)
  have u: "?T mod 1000000 = microsecond t"
    by (rule int_mod_pos_eq [where q = "(hour t * 60 + minute t) * 60 + second t"])
       (use v in \<open>auto simp: time_us_def\<close>)
  show ?thesis
    by (simp add: time_of_us_def h m s u)
qed

lemma time_us_time_of_us:
  "time_us (time_of_us r) = r"
proof -
  have a: "r div 1000000 * 1000000 + r mod 1000000 = r" by simp
  have b: "r div 1000000 div 60 * 60 + r div 1000000 mod 60 = r div 1000000" by simp
  have c: "r div 1000000 div 60 div 60 * 60 + r div 1000000 div 60 mod 60 = r div 1000000 div 60" by simp
  have d1: "r div 60000000 = r div 1000000 div 60"
    by (simp add: div_mult2_eq [symmetric])
  have d2: "r div 3600000000 = r div 1000000 div 60 div 60"
    by (simp add: div_mult2_eq [symmetric])
  show ?thesis
    unfolding time_us_def time_of_us_def using a b c
    by (simp add: d1 d2)
qed

lemma valid_time_of_us:
  assumes "0 \<le> r" "r < 86400000000"
  shows "valid_time (time_of_us r)"
proof -
  have "r div 3600000000 < 24" using assms by linarith
  moreover have "0 \<le> r div 3600000000" using assms by linarith
  ultimately show ?thesis
    by (simp add: valid_time_def time_of_us_def)
qed

lemma time_le_iff:
  assumes "valid_time a" "valid_time b"
  shows "time_le a b \<longleftrightarrow> time_us a \<le> time_us b"
  using assms unfolding time_le_def time_tuple_def time_us_def valid_time_def
  by (auto simp: less_eq_prod_def less_prod_def)

lemma dt_us_dt_of_us: "dt_us (dt_of_us T) = T"
  by (simp add: dt_us_def dt_of_us_def time_us_time_of_us)

lemma dt_of_us_dt_us:
  assumes "valid_time (dt_time dt)"
  shows "dt_of_us (dt_us dt) = dt"
proof -
  have r: "0 \<le> time_us (dt_time dt)" "time_us (dt_time dt) < 86400000000"
    using time_us_range [OF assms] by auto
  have d: "dt_us dt div 86400000000 = dt_date dt"
    by (rule int_div_pos_eq [where r = "time_us (dt_time dt)"]) (use r in \<open>auto simp: dt_us_def\<close>)
  have m: "dt_us dt mod 86400000000 = time_us (dt_time dt)"
    by (rule int_mod_pos_eq [where q = "dt_date dt"]) (use r in \<open>auto simp: dt_us_def\<close>)
  show ?thesis
    by (simp add: dt_of_us_def d m time_of_us_time_us [OF assms])
qed

lemma valid_dt_of_us:
  assumes "0 < T div 86400000000" "T div 86400000000 \<le> MAXORDINAL"
  shows "valid_datetime (dt_of_us T)"
  using assms
  by (simp add: valid_datetime_def valid_date_def dt_of_us_def valid_time_of_us)

lemma dt_add_Inr:
  assumes "dt_add dt td = Inr dt'"
  shows "dt_us dt' = dt_us dt + td" and "valid_datetime dt'"
proof -
  let ?T = "dt_us dt + td"
  have c: "0 < ?T div 86400000000 \<and> ?T div 86400000000 \<le> MAXORDINAL"
    using assms unfolding dt_add_def Let_def by (metis Inl_Inr_False)
  then have e: "dt' = dt_of_us ?T"
    using assms unfolding dt_add_def Let_def by (simp only: simp_thms if_True sum.inject)
  show "dt_us dt' = dt_us dt + td"
    unfolding e by (rule dt_us_dt_of_us)
  show "valid_datetime dt'"
    unfolding e using c by (intro valid_dt_of_us) auto
qed

lemma dt_us_inj:
  assumes "valid_datetime a" "valid_datetime b" "dt_us a = dt_us b"
  shows "a = b"
proof -
  have "dt_of_us (dt_us a) = a" "dt_of_us (dt_us b) = b"
    using assms(1,2) by (simp_all add: valid_datetime_def dt_of_us_dt_us)
  then show ?thesis
    using assms(3) by metis
qed

lemma dt_add_same_day:
  assumes "valid_datetime dt" "0 \<le> time_us (dt_time dt) + td"
    "time_us (dt_time dt) + td < 86400000000"
  shows "dt_add dt td = Inr \<lparr>dt_date = dt_date dt, dt_time = time_of_us (time_us (dt_time dt) + td)\<rparr>"
proof -
  let ?r = "time_us (dt_time dt) + td"
  have d: "(dt_us dt + td) div 86400000000 = dt_date dt"
    by (rule int_div_pos_eq [where r = ?r]) (use assms in \<open>auto simp: dt_us_def\<close>)
  have m: "(dt_us dt + td) mod 86400000000 = ?r"
    by (rule int_mod_pos_eq [where q = "dt_date dt"]) (use assms in \<open>auto simp: dt_us_def\<close>)
  show ?thesis
    using assms(1)
    by (simp add: dt_add_def Let_def d m dt_of_us_def valid_datetime_def valid_date_def)
qed

lemma round_dt_Some:
  assumes "valid_datetime dt" "1 < g"
  shows "round_dt dt (Some g) =
    Inr (dt\<lparr>dt_time := (dt_time dt)\<lparr>minute := minute (dt_time dt) - minute (dt_time dt) mod g,
                                     second := 0, microsecond := 0\<rparr>\<rparr>)"
proof -
  let ?t = "dt_time dt"
  let ?t' = "?t\<lparr>minute := minute ?t - minute ?t mod g, second := 0, microsecond := 0\<rparr>"
  have v: "valid_time ?t" using assms(1) by (simp add: valid_datetime_def)
  have mg: "0 \<le> minute ?t mod g" "minute ?t mod g \<le> minute ?t"
    using assms(2) v by (auto simp: valid_time_def zmod_le_nonneg_dividend)
  have v': "valid_time ?t'"
    using v mg by (auto simp: valid_time_def)
  have e: "time_us ?t + - timedelta (minute ?t mod g) (second ?t) (microsecond ?t) = time_us ?t'"
    by (simp add: time_us_def timedelta_def algebra_simps)
  have "dt_add dt (- timedelta (minute ?t mod g) (second ?t) (microsecond ?t)) =
     Inr \<lparr>dt_date = dt_date dt, dt_time = time_of_us (time_us ?t')\<rparr>"
    using dt_add_same_day [OF assms(1), of "- timedelta (minute ?t mod g) (second ?t) (microsecond ?t)"]
      time_us_range [OF v'] unfolding e by simp
  then show ?thesis
    using assms(2) by (simp add: round_dt_def dt_sub_def Let_def time_of_us_time_us [OF v'])
qed

section \<open>The loop and its trace\<close>















section \<open>The threshold policy and the demand table\<close>

lemma find_sorted_desc:
  fixes xs :: "(real \<times> int) list"
  assumes "sorted (map (\<lambda>x. - fst x) xs)" "s \<in> fst ` set xs"
  shows "\<exists>hw. find (\<lambda>(thr, hw). s \<ge> thr) xs = Some (s, hw) \<and> (s, hw) \<in> set xs"
  using assms
proof (induction xs)
  case Nil
  then show ?case by simp
next
  case (Cons x xs)
  obtain t h where x: "x = (t, h)" by (cases x)
  have "\<forall>y \<in> set xs. - fst x \<le> - fst y"
    using Cons.prems(1) by simp
  then have le: "\<forall>y \<in> set xs. fst y \<le> t"
    by (simp add: x)
  show ?case
  proof (cases "t \<le> s")
    case True
    have "s \<le> t" using Cons.prems(2) le by (auto simp: x)
    with True have "s = t" by simp
    then show ?thesis by (simp add: x)
  next
    case False
    then have "s \<in> fst ` set xs" using Cons.prems(2) by (auto simp: x)
    moreover have "sorted (map (\<lambda>x. - fst x) xs)" using Cons.prems(1) by simp
    ultimately obtain hw where "find (\<lambda>(thr, hw). s \<ge> thr) xs = Some (s, hw)" "(s, hw) \<in> set xs"
      using Cons.IH by blast
    then show ?thesis using False by (auto simp: x)
  qed
qed

lemma thresholds_init_sorted:
  "sorted (map (\<lambda>x. - fst x) (thresholds (ThresholdHeadwayPolicy_init arg mn mx)))"
  by (simp add: ThresholdHeadwayPolicy_init_def)

lemma range_dict_apply:
  "range_dict a b v h = (if a \<le> h \<and> h < b then Some v else None)"
proof -
  have "map_of (map (\<lambda>h. (h, v)) xs) h = (if h \<in> set xs then Some v else None)" for xs
    by (induction xs) auto
  then show ?thesis
    by (auto simp: range_dict_def)
qed

lemma default_by_hour_apply:
  "default_by_hour h =
     (if 0 \<le> h \<and> h < 5 then Some 0.25 else if 5 \<le> h \<and> h < 7 then Some 0.6
      else if 7 \<le> h \<and> h < 9 then Some 0.9 else if 9 \<le> h \<and> h < 12 then Some 0.5
      else if 12 \<le> h \<and> h < 14 then Some 0.7 else if 14 \<le> h \<and> h < 17 then Some 0.55
      else if 17 \<le> h \<and> h < 20 then Some 0.95 else if 20 \<le> h \<and> h < 24 then Some 0.4
      else None)"
  by (simp add: default_by_hour_def map_add_def range_dict_apply)


text \<open>
  Claim C6. Every value \<open>get_headway_minutes\<close> returns is clamped to
  \<open>[min_headway, max_headway]\<close>. For the policy with the default table and any
  configured bounds \<open>min_headway \<le> max_headway\<close> (the defaults 6 and 60 among them), a
  headway is returned for every route, timestamp and demand score (so for every score
  in [0,1] and the scores 0.85, 0.70, 0.50, 0.30 and 0.00) and it lies within the
  bounds; for any table, whatever is returned, by a matching entry or by the fallback,
  lies within the bounds.
\<close>

theorem default_policy_clamped:
  assumes "mn \<le> mx"
  shows "(\<exists>hw. get_headway_minutes (ThresholdHeadwayPolicy_init None mn mx)
              route_name at_dt demand_score = Inr hw \<and>
            min_headway (ThresholdHeadwayPolicy_init None mn mx) \<le> hw \<and>
            hw \<le> max_headway (ThresholdHeadwayPolicy_init None mn mx)) \<and>
     (\<forall>hw. get_headway_minutes (ThresholdHeadwayPolicy_init thresholds_arg mn mx)
              route_name at_dt demand_score = Inr hw \<longrightarrow>
            min_headway (ThresholdHeadwayPolicy_init thresholds_arg mn mx) \<le> hw \<and>
            hw \<le> max_headway (ThresholdHeadwayPolicy_init thresholds_arg mn mx))"
proof -
  have general: "mn \<le> hw \<and> hw \<le> mx"
    if "get_headway_minutes (ThresholdHeadwayPolicy_init arg mn mx) route_name at_dt demand_score = Inr hw"
    for arg hw
    using that assms
    by (auto simp: get_headway_minutes_def ThresholdHeadwayPolicy_init_def
        split: option.splits list.splits prod.splits)
  have "\<exists>hw. get_headway_minutes (ThresholdHeadwayPolicy_init None mn mx)
      route_name at_dt demand_score = Inr hw"
    by (simp add: get_headway_minutes_def ThresholdHeadwayPolicy_init_def default_thresholds_def)
  moreover have "min_headway (ThresholdHeadwayPolicy_init arg mn mx) = mn"
    "max_headway (ThresholdHeadwayPolicy_init arg mn mx) = mx" for arg
    by (simp_all add: ThresholdHeadwayPolicy_init_def)
  ultimately show ?thesis
    using general by metis
qed

theorem default_policy_clamped_witness:
  "(\<exists>hw. get_headway_minutes (ThresholdHeadwayPolicy_init None 10 12) ''Ruta_Norte''
          (combine 739000 (time_hm 7 0)) 0.85 = Inr hw \<and> 10 \<le> hw \<and> hw \<le> 12) \<and>
   get_headway_minutes (ThresholdHeadwayPolicy_init None 10 12) ''Ruta_Norte''
     (combine 739000 (time_hm 7 0)) 0.85 = Inr 10 \<and>
   get_headway_minutes (ThresholdHeadwayPolicy_init None 10 12) ''Ruta_Norte''
     (combine 739000 (time_hm 7 0)) 0.00 = Inr 12 \<and>
   get_headway_minutes (ThresholdHeadwayPolicy_init (Some [(0.5, 3)]) 10 12) ''Ruta_Norte''
     (combine 739000 (time_hm 7 0)) 0.2 = Inr 10"
proof -
  have b: "(10::int) \<le> 12" by simp
  have v: "get_headway_minutes (ThresholdHeadwayPolicy_init None 10 12) ''Ruta_Norte''
     (combine 739000 (time_hm 7 0)) 0.85 = Inr 10"
    "get_headway_minutes (ThresholdHeadwayPolicy_init None 10 12) ''Ruta_Norte''
     (combine 739000 (time_hm 7 0)) 0.00 = Inr 12"
    "get_headway_minutes (ThresholdHeadwayPolicy_init (Some [(0.5, 3)]) 10 12) ''Ruta_Norte''
     (combine 739000 (time_hm 7 0)) 0.2 = Inr 10"
    by (simp_all add: get_headway_minutes_def ThresholdHeadwayPolicy_init_def default_thresholds_def)
  from default_policy_clamped [OF b, of "''Ruta_Norte''" "combine 739000 (time_hm 7 0)" "0.85"]
  have "\<exists>hw. get_headway_minutes (ThresholdHeadwayPolicy_init None 10 12) ''Ruta_Norte''
          (combine 739000 (time_hm 7 0)) 0.85 = Inr hw \<and> 10 \<le> hw \<and> hw \<le> 12"
    by (simp add: ThresholdHeadwayPolicy_init_def)
  with v show ?thesis by blast
qed

text \<open>
  Claim C7. For every estimator (any table, any base), every route and every datetime,
  \<open>get_demand_score\<close> returns a score in [0,1]; when the hour is absent from the table
  the score is the base value clamped to [0,1] (the default base 0.4 is returned as it
  is), and a value found in the table is clamped to [0,1].
\<close>

theorem demand_score_clamped:
  "0 \<le> get_demand_score self route_name at_dt \<and> get_demand_score self route_name at_dt \<le> 1 \<and>
   (by_hour self (hour (dt_time at_dt)) = None \<longrightarrow>
      get_demand_score self route_name at_dt = max 0 (min 1 (base self))) \<and>
   (\<forall>v. by_hour self (hour (dt_time at_dt)) = Some v \<longrightarrow>
      get_demand_score self route_name at_dt = max 0 (min 1 v))"
  by (auto simp: get_demand_score_def split: option.splits)

theorem demand_score_clamped_witness:
  "get_demand_score (SimpleDemandByHour_init (Some [7 \<mapsto> 1.5]) 0.4) ''Ruta_Norte''
     (combine 739000 (time_hm 3 0)) = 0.4 \<and>
   get_demand_score (SimpleDemandByHour_init (Some [7 \<mapsto> 1.5]) 0.4) ''Ruta_Norte''
     (combine 739000 (time_hm 7 30)) = 1 \<and>
   0 \<le> get_demand_score (SimpleDemandByHour_init None 0.4) ''Ruta_Norte''
     (combine 739000 (time_hm 23 59)) \<and>
   get_demand_score (SimpleDemandByHour_init None 0.4) ''Ruta_Norte''
     (combine 739000 (time_hm 23 59)) \<le> 1"
proof -
  let ?e = "SimpleDemandByHour_init (Some [7 \<mapsto> 1.5]) 0.4"
  have a: "by_hour ?e (hour (dt_time (combine 739000 (time_hm 3 0)))) = None"
    by (simp add: SimpleDemandByHour_init_def combine_def time_hm_def)
  have b: "by_hour ?e (hour (dt_time (combine 739000 (time_hm 7 30)))) = Some 1.5"
    by (simp add: SimpleDemandByHour_init_def combine_def time_hm_def)
  have c: "base ?e = 0.4"
    by (simp add: SimpleDemandByHour_init_def)
  have "get_demand_score ?e ''Ruta_Norte'' (combine 739000 (time_hm 3 0)) = max 0 (min 1 (base ?e))"
    using demand_score_clamped [of ?e "''Ruta_Norte''" "combine 739000 (time_hm 3 0)"] a
    by blast
  then have r1: "get_demand_score ?e ''Ruta_Norte'' (combine 739000 (time_hm 3 0)) = 0.4"
    unfolding c by simp
  have "get_demand_score ?e ''Ruta_Norte'' (combine 739000 (time_hm 7 30)) = max 0 (min 1 1.5)"
    using demand_score_clamped [of ?e "''Ruta_Norte''" "combine 739000 (time_hm 7 30)"] b
    by blast
  then have r2: "get_demand_score ?e ''Ruta_Norte'' (combine 739000 (time_hm 7 30)) = 1"
    by simp
  show ?thesis
    using r1 r2 demand_score_clamped [of "SimpleDemandByHour_init None 0.4" "''Ruta_Norte''"
        "combine 739000 (time_hm 23 59)"]
    by blast
qed

text \<open>
  Claim C8. The thresholds are scanned from the highest to the lowest and an entry is
  selected by \<open>demand_score \<ge> threshold\<close>: a score that is exactly a threshold of the
  table selects an entry with that very threshold (its clamped headway is returned), not
  a lower tier. With the default table, 0.70 selects the 0.70 tier (10 minutes).
\<close>

theorem tie_break_selects_met_threshold:
  assumes "thr \<in> fst ` set (thresholds (ThresholdHeadwayPolicy_init arg mn mx))"
  shows "\<exists>hw. (thr, hw) \<in> set (thresholds (ThresholdHeadwayPolicy_init arg mn mx)) \<and>
     get_headway_minutes (ThresholdHeadwayPolicy_init arg mn mx) route_name at_dt thr =
       Inr (max mn (min mx hw))"
proof -
  let ?p = "ThresholdHeadwayPolicy_init arg mn mx"
  obtain hw where f: "find (\<lambda>(t, h). thr \<ge> t) (thresholds ?p) = Some (thr, hw)"
    and m: "(thr, hw) \<in> set (thresholds ?p)"
    using find_sorted_desc [OF thresholds_init_sorted assms] by blast
  have "get_headway_minutes ?p route_name at_dt thr =
      Inr (max (min_headway ?p) (min (max_headway ?p) hw))"
    by (simp add: get_headway_minutes_def f)
  then show ?thesis using m by (auto simp: ThresholdHeadwayPolicy_init_def)
qed

theorem tie_break_witness:
  "get_headway_minutes (ThresholdHeadwayPolicy_init None 6 60) ''Ruta_Centro''
     (combine 739000 (time_hm 13 0)) 0.70 = Inr 10"
  using tie_break_selects_met_threshold [of "0.70" None 6 60 "''Ruta_Centro''"
     "combine 739000 (time_hm 13 0)"]
  by (simp add: ThresholdHeadwayPolicy_init_def default_thresholds_def)

section \<open>Rounding\<close>

text \<open>
  Claim C9. Rounding down is idempotent: for every datetime and every granularity
  (\<open>None\<close>, or any integer), \<open>_round_dt\<close> returns a datetime, and rounding that datetime
  again with the same granularity returns it unchanged.
\<close>

theorem round_dt_idempotent:
  assumes "valid_datetime dt"
  shows "\<exists>dt'. round_dt dt rtm = Inr dt' \<and> round_dt dt' rtm = Inr dt'"
proof (cases "\<exists>g. rtm = Some g \<and> 1 < g")
  case False
  then have "round_dt dt rtm = Inr dt"
    by (cases rtm) (auto simp: round_dt_def)
  then show ?thesis by simp
next
  case True
  then obtain g where g: "rtm = Some g" "1 < g" by blast
  let ?t = "dt_time dt"
  let ?dt' = "dt\<lparr>dt_time := ?t\<lparr>minute := minute ?t - minute ?t mod g, second := 0, microsecond := 0\<rparr>\<rparr>"
  have r1: "round_dt dt rtm = Inr ?dt'"
    unfolding g by (rule round_dt_Some [OF assms g(2)])
  have mg: "0 \<le> minute ?t mod g" "minute ?t mod g \<le> minute ?t"
    using g(2) assms by (auto simp: valid_datetime_def valid_time_def zmod_le_nonneg_dividend)
  have v: "valid_datetime ?dt'"
    using assms mg by (auto simp: valid_datetime_def valid_time_def)
  have z: "(minute ?t - minute ?t mod g) mod g = 0"
    by (simp add: minus_mod_eq_mult_div)
  have "round_dt ?dt' rtm = Inr ?dt'"
    unfolding g using round_dt_Some [OF v g(2)] by (simp add: z)
  with r1 show ?thesis by blast
qed

theorem round_dt_idempotent_witness:
  "valid_datetime \<lparr>dt_date = 739000, dt_time = \<lparr>hour = 7, minute = 8, second = 30, microsecond = 500000\<rparr>\<rparr>
   \<and> round_dt \<lparr>dt_date = 739000, dt_time = \<lparr>hour = 7, minute = 8, second = 30, microsecond = 500000\<rparr>\<rparr> (Some 5)
       = Inr (combine 739000 (time_hm 7 5))
   \<and> round_dt (combine 739000 (time_hm 7 5)) (Some 5) = Inr (combine 739000 (time_hm 7 5))"
proof -
  let ?dt = "\<lparr>dt_date = 739000, dt_time = \<lparr>hour = 7, minute = 8, second = 30, microsecond = 500000\<rparr>\<rparr>"
  have v: "valid_datetime ?dt"
    by (simp add: valid_datetime_def valid_date_def valid_time_def MAXORDINAL_def)
  have r: "round_dt ?dt (Some 5) = Inr (combine 739000 (time_hm 7 5))"
    using round_dt_Some [OF v, of 5] by (simp add: combine_def time_hm_def)
  show ?thesis
    using v r round_dt_idempotent [OF v, of "Some 5"] by simp
qed

section \<open>Window validation\<close>

text \<open>
  Claim C4. When the service window has \<open>start = end\<close> or \<open>start > end\<close> (Python's
  \<open>start >= end\<close>), \<open>generate_daily_schedule\<close> raises the configuration error (a
  \<open>ValueError\<close>) whatever the routes, the day, the estimator and the policy are: the
  result is the error alone, no schedule.
\<close>

theorem invalid_window_raises:
  assumes "time_ge (sw_start (service_window options)) (sw_end (service_window options))"
  shows "generate_daily_schedule routes service_day options demand_provider headway_policy =
     Some (Inl ValueError)"
  using assms by (simp add: generate_daily_schedule_def)

theorem invalid_window_raises_witness:
  "generate_daily_schedule [''Ruta_Centro'', ''Ruta_Norte''] 739000
     \<lparr>service_window = \<lparr>sw_start = time_hm 9 0, sw_end = time_hm 9 0\<rparr>,
      fixed_headway_min = None, round_to_minutes = Some 5\<rparr> None None = Some (Inl ValueError)
   \<and> generate_daily_schedule [''Ruta_Centro''] 739000
     \<lparr>service_window = \<lparr>sw_start = time_hm 22 0, sw_end = time_hm 6 0\<rparr>,
      fixed_headway_min = Some 30, round_to_minutes = None\<rparr> None None = Some (Inl ValueError)"
  using invalid_window_raises [of "\<lparr>service_window = \<lparr>sw_start = time_hm 9 0, sw_end = time_hm 9 0\<rparr>,
      fixed_headway_min = None, round_to_minutes = Some 5\<rparr>" "[''Ruta_Centro'', ''Ruta_Norte'']" 739000 None None]
    invalid_window_raises [of "\<lparr>service_window = \<lparr>sw_start = time_hm 22 0, sw_end = time_hm 6 0\<rparr>,
      fixed_headway_min = Some 30, round_to_minutes = None\<rparr>" "[''Ruta_Centro'']" 739000 None None]
  by (simp add: time_ge_def time_tuple_def time_hm_def)

section \<open>Evaluation on concrete inputs\<close>

lemmas eval_defs = generate_daily_schedule_def empty_schedules_def provider_or_default_def
  policy_or_default_def time_ge_def time_le_def time_tuple_def time_hm_def round_dt_def combine_def
  while_loop.simps advance_def headway_for_def dt_add_def dt_sub_def dt_us_def time_us_def timedelta_def
  dt_of_us_def time_of_us_def MAXORDINAL_def Let_def truthy_def get_demand_score_def
  SimpleDemandByHour_init_def default_by_hour_apply get_headway_minutes_def
  ThresholdHeadwayPolicy_init_def default_thresholds_def


section \<open>Duplicate route names\<close>



section \<open>Scenario B\<close>

lemma scenario_B_run:
  assumes "valid_date d"
  shows "generate_daily_schedule [r] d options_scenario_B None None =
   Some (Inr [(r, map (\<lambda>(h, m). combine d (time_hm h m))
      [(7, 0), (7, 8), (7, 16), (7, 24), (7, 32), (7, 40), (7, 48), (7, 56),
       (8, 4), (8, 12), (8, 20), (8, 28), (8, 36), (8, 44), (8, 52), (9, 0)])])"
  using assms
  by (simp add: eval_defs options_scenario_B_def valid_date_def)

lemma scenario_B_headway_peak:
  assumes "7 \<le> h" "h < 9"
  shows "headway_for options_scenario_B (provider_or_default None) (policy_or_default None) r
     (combine d (time_hm h m)) = Inr 8"
  using assms
  by (simp add: headway_for_def options_scenario_B_def provider_or_default_def policy_or_default_def
      get_demand_score_def SimpleDemandByHour_init_def default_by_hour_apply get_headway_minutes_def
      ThresholdHeadwayPolicy_init_def default_thresholds_def combine_def time_hm_def)

lemma scenario_B_headway_nine:
  "headway_for options_scenario_B (provider_or_default None) (policy_or_default None) r
     (combine d (time_hm 9 m)) = Inr 15"
  by (simp add: headway_for_def options_scenario_B_def provider_or_default_def policy_or_default_def
      get_demand_score_def SimpleDemandByHour_init_def default_by_hour_apply get_headway_minutes_def
      ThresholdHeadwayPolicy_init_def default_thresholds_def combine_def time_hm_def)

text \<open>
  Claim C3, amended. With window 07:00-09:00, the default estimator and policy, no fixed
  headway and no rounding, a route gets exactly 16 departures, 8 minutes apart: 07:00,
  07:08, ..., 08:52 and 09:00. Every headway asked for in hours 7 and 8 is the
  0.85-threshold tier of 8 minutes. The sixteenth departure is 09:00, the window end,
  which \<open>current.time() <= end\<close> includes; the headway computed there is the 15 minutes
  of the 0.50 tier, and 09:15 is excluded.
\<close>

theorem scenario_B_departures:
  assumes "valid_date d"
  shows "generate_daily_schedule [r] d options_scenario_B None None =
     Some (Inr [(r, map (\<lambda>(h, m). combine d (time_hm h m))
        [(7, 0), (7, 8), (7, 16), (7, 24), (7, 32), (7, 40), (7, 48), (7, 56),
         (8, 4), (8, 12), (8, 20), (8, 28), (8, 36), (8, 44), (8, 52), (9, 0)])]) \<and>
   (\<forall>h m. 7 \<le> h \<and> h < 9 \<longrightarrow>
      headway_for options_scenario_B (provider_or_default None) (policy_or_default None) r
        (combine d (time_hm h m)) = Inr 8) \<and>
   headway_for options_scenario_B (provider_or_default None) (policy_or_default None) r
     (combine d (time_hm 9 0)) = Inr 15"
  using scenario_B_run [OF assms] by (simp add: scenario_B_headway_peak scenario_B_headway_nine)

theorem scenario_B_departures_witness:
  "generate_daily_schedule [''Ruta_Norte''] 738000 options_scenario_B None None =
     Some (Inr [(''Ruta_Norte'', map (\<lambda>(h, m). combine 738000 (time_hm h m))
        [(7, 0), (7, 8), (7, 16), (7, 24), (7, 32), (7, 40), (7, 48), (7, 56),
         (8, 4), (8, 12), (8, 20), (8, 28), (8, 36), (8, 44), (8, 52), (9, 0)])]) \<and>
   headway_for options_scenario_B (provider_or_default None) (policy_or_default None) ''Ruta_Norte''
     (combine 738000 (time_hm 8 52)) = Inr 8"
proof -
  have v: "valid_date 738000" by (simp add: valid_date_def MAXORDINAL_def)
  show ?thesis
    using scenario_B_departures [OF v, of "''Ruta_Norte''"] by simp
qed

text \<open>
  The claim as stated names 08:56 as the last departure and has every headway at 8
  minutes: 08:56 is not a departure, and the headway computed at 09:00 is not 8.
\<close>

theorem scenario_B_counterexample:
  "generate_daily_schedule [''Ruta_Centro''] 739000 options_scenario_B None None =
     Some (Inr [(''Ruta_Centro'', map (\<lambda>(h, m). combine 739000 (time_hm h m))
        [(7, 0), (7, 8), (7, 16), (7, 24), (7, 32), (7, 40), (7, 48), (7, 56),
         (8, 4), (8, 12), (8, 20), (8, 28), (8, 36), (8, 44), (8, 52), (9, 0)])]) \<and>
   combine 739000 (time_hm 8 56) \<notin> set (map (\<lambda>(h, m). combine 739000 (time_hm h m))
        [(7, 0), (7, 8), (7, 16), (7, 24), (7, 32), (7, 40), (7, 48), (7, 56),
         (8, 4), (8, 12), (8, 20), (8, 28), (8, 36), (8, 44), (8, 52), (9, 0)]) \<and>
   headway_for options_scenario_B (provider_or_default None) (policy_or_default None) ''Ruta_Centro''
     (combine 739000 (time_hm 9 0)) \<noteq> Inr 8"
proof -
  have v: "valid_date 739000" by (simp add: valid_date_def MAXORDINAL_def)
  have "combine 739000 (time_hm 8 56) \<notin> set (map (\<lambda>(h, m). combine 739000 (time_hm h m))
        [(7, 0), (7, 8), (7, 16), (7, 24), (7, 32), (7, 40), (7, 48), (7, 56),
         (8, 4), (8, 12), (8, 20), (8, 28), (8, 36), (8, 44), (8, 52), (9, 0)])"
    by (simp add: combine_def time_hm_def)
  then show ?thesis
    using scenario_B_run [OF v, of "''Ruta_Centro''"] by (simp add: scenario_B_headway_nine)
qed

section \<open>Fixed headway\<close>



lemma round_dt_not_truthy:
  "\<not> truthy rtm \<Longrightarrow> round_dt dt rtm = Inr dt"
  by (auto simp: truthy_def round_dt_def split: option.splits)







section \<open>Runs that never return\<close>

lemma stuck_diverges:
  assumes "time_le (dt_time current) (sw_end (service_window options))"
    and "advance options dp hp route current = Inr current"
    and "map_of schedules route \<noteq> None"
  shows "while_loop options dp hp route current schedules = None"
proof (cases "while_loop options dp hp route current schedules")
  case None
  then show ?thesis .
next
  case (Some y)
  have "\<not> (o' = options \<and> d = dp \<and> h = hp \<and> r = route \<and> c = current \<and> map_of s r \<noteq> None)"
    if w: "while_loop o' d h r c s = Some y" for o' d h r c s y
  proof (rule while_loop.raw_induct [where P = "\<lambda>o' d h r c s y.
      \<not> (o' = options \<and> d = dp \<and> h = hp \<and> r = route \<and> c = current \<and> map_of s r \<noteq> None)",
      OF _ w], goal_cases)
    case (1 f opts dpx hpx rt cur sch res)
    show ?case
    proof
      assume st: "opts = options \<and> dpx = dp \<and> hpx = hp \<and> rt = route \<and> cur = current \<and>
        map_of sch rt \<noteq> None"
      then obtain old where old: "map_of sch route = Some old" by auto
      from 1(2) st assms(1,2) old
      have "f options dp hp route current (AList.update route (old @ [current]) sch) = Some res"
        by simp
      from 1(1) [OF this] show False
        by (simp add: update_conv')
    qed
  qed
  from this [OF Some] assms(3) show ?thesis by simp
qed

lemma rounding_never_terminates:
  "generate_daily_schedule [''R''] 739000 options_coarse_rounding None None = None"
proof -
  let ?dp = "provider_or_default None" and ?hp = "policy_or_default None"
  let ?c = "combine 739000 (time_hm 7 0)"
  have r: "round_dt (combine 739000 (sw_start (service_window options_coarse_rounding)))
      (round_to_minutes options_coarse_rounding) = Inr ?c"
    by (simp add: options_coarse_rounding_def round_dt_def combine_def time_hm_def dt_sub_def
        dt_add_def dt_us_def time_us_def timedelta_def dt_of_us_def time_of_us_def MAXORDINAL_def Let_def)
  have g: "time_le (dt_time ?c) (sw_end (service_window options_coarse_rounding))"
    by (simp add: options_coarse_rounding_def time_le_def time_tuple_def combine_def time_hm_def)
  have a: "advance options_coarse_rounding ?dp ?hp ''R'' ?c = Inr ?c"
    by (simp add: options_coarse_rounding_def advance_def headway_for_def provider_or_default_def
        policy_or_default_def get_demand_score_def SimpleDemandByHour_init_def default_by_hour_apply
        get_headway_minutes_def ThresholdHeadwayPolicy_init_def default_thresholds_def truthy_def
        round_dt_def combine_def time_hm_def dt_sub_def
        dt_add_def dt_us_def time_us_def timedelta_def dt_of_us_def time_of_us_def MAXORDINAL_def Let_def)
  have "while_loop options_coarse_rounding ?dp ?hp ''R'' ?c (empty_schedules [''R'']) = None"
    by (rule stuck_diverges [OF g a]) (simp add: empty_schedules_def)
  moreover have "\<not> time_ge (sw_start (service_window options_coarse_rounding))
      (sw_end (service_window options_coarse_rounding))"
    by (simp add: options_coarse_rounding_def time_ge_def time_tuple_def time_hm_def)
  ultimately show ?thesis
    using r by (simp add: generate_daily_schedule_def)
qed

lemma zero_headway_never_terminates:
  "generate_daily_schedule [''R''] 739000 options_zero_headway None None = None"
proof -
  let ?dp = "provider_or_default None" and ?hp = "policy_or_default None"
  let ?c = "combine 739000 (time_hm 7 0)"
  have r: "round_dt (combine 739000 (sw_start (service_window options_zero_headway)))
      (round_to_minutes options_zero_headway) = Inr ?c"
    by (simp add: options_zero_headway_def round_dt_def)
  have g: "time_le (dt_time ?c) (sw_end (service_window options_zero_headway))"
    by (simp add: options_zero_headway_def time_le_def time_tuple_def combine_def time_hm_def)
  have a: "advance options_zero_headway ?dp ?hp ''R'' ?c = Inr ?c"
    by (simp add: options_zero_headway_def advance_def headway_for_def truthy_def
        combine_def time_hm_def
        dt_add_def dt_us_def time_us_def timedelta_def dt_of_us_def time_of_us_def MAXORDINAL_def Let_def)
  have "while_loop options_zero_headway ?dp ?hp ''R'' ?c (empty_schedules [''R'']) = None"
    by (rule stuck_diverges [OF g a]) (simp add: empty_schedules_def)
  moreover have "\<not> time_ge (sw_start (service_window options_zero_headway))
      (sw_end (service_window options_zero_headway))"
    by (simp add: options_zero_headway_def time_ge_def time_tuple_def time_hm_def)
  ultimately show ?thesis
    using r by (simp add: generate_daily_schedule_def)
qed

section \<open>Steps of the loop\<close>

lemma dt_us_bounds:
  assumes "valid_datetime dt"
  shows "86400000000 \<le> dt_us dt" "dt_us dt < (MAXORDINAL + 1) * 86400000000"
proof -
  have t: "0 \<le> time_us (dt_time dt)" "time_us (dt_time dt) < 86400000000"
    using time_us_range [of "dt_time dt"] assms by (auto simp: valid_datetime_def)
  have d: "1 \<le> dt_date dt" "dt_date dt \<le> MAXORDINAL"
    using assms by (auto simp: valid_datetime_def valid_date_def)
  show "86400000000 \<le> dt_us dt" using t d by (simp add: dt_us_def)
  have "dt_date dt * 86400000000 \<le> MAXORDINAL * 86400000000"
    using d by simp
  then show "dt_us dt < (MAXORDINAL + 1) * 86400000000"
    using t by (simp add: dt_us_def algebra_simps)
qed

lemma round_dt_valid:
  assumes "valid_datetime dt"
  shows "\<exists>dt'. round_dt dt rtm = Inr dt' \<and> valid_datetime dt' \<and> dt_date dt' = dt_date dt \<and>
    aligned rtm (dt_time dt') \<and> dt_us dt' \<le> dt_us dt \<and>
    dt_us dt < dt_us dt' + rounding_step rtm * 60000000"
proof (cases "\<exists>g. rtm = Some g \<and> 1 < g")
  case False
  then have "round_dt dt rtm = Inr dt" "aligned rtm (dt_time dt)" "rounding_step rtm = 1"
    by (cases rtm; auto simp: round_dt_def aligned_def rounding_step_def)+
  then show ?thesis using assms by simp
next
  case True
  then obtain g where g: "rtm = Some g" "1 < g" by blast
  let ?t = "dt_time dt"
  let ?t' = "?t\<lparr>minute := minute ?t - minute ?t mod g, second := 0, microsecond := 0\<rparr>"
  let ?dt' = "dt\<lparr>dt_time := ?t'\<rparr>"
  have v: "0 \<le> hour ?t" "hour ?t < 24" "0 \<le> minute ?t" "minute ?t < 60"
    "0 \<le> second ?t" "second ?t < 60" "0 \<le> microsecond ?t" "microsecond ?t < 1000000"
    using assms by (auto simp: valid_datetime_def valid_time_def)
  have r1: "round_dt dt rtm = Inr ?dt'"
    unfolding g by (rule round_dt_Some [OF assms g(2)])
  have mg: "0 \<le> minute ?t mod g" "minute ?t mod g \<le> minute ?t" "minute ?t mod g < g"
    using g(2) v by (auto simp: zmod_le_nonneg_dividend)
  have v': "valid_datetime ?dt'"
    using assms mg by (auto simp: valid_datetime_def valid_time_def)
  have z: "(minute ?t - minute ?t mod g) mod g = 0"
    by (simp add: minus_mod_eq_mult_div)
  have al: "aligned rtm (dt_time ?dt')"
    using z by (simp add: aligned_def g)
  have e: "dt_us ?dt' = dt_us dt - ((minute ?t mod g) * 60000000 + second ?t * 1000000 + microsecond ?t)"
    by (simp add: dt_us_def time_us_def algebra_simps)
  have le: "dt_us ?dt' \<le> dt_us dt"
    unfolding e using mg v by simp
  have "minute ?t mod g \<le> min g 60 - 1"
    using mg v by simp
  then have "(minute ?t mod g) * 60000000 \<le> (min g 60 - 1) * 60000000"
    by (rule mult_right_mono) simp
  then have "(minute ?t mod g) * 60000000 + second ?t * 1000000 + microsecond ?t < min g 60 * 60000000"
    using v by (simp add: algebra_simps)
  moreover have "rounding_step rtm = min g 60"
    using g by (simp add: rounding_step_def)
  ultimately have "dt_us dt < dt_us ?dt' + rounding_step rtm * 60000000"
    unfolding e by simp
  with r1 v' al le show ?thesis by simp
qed

lemma advance_valid:
  assumes "advance options dp hp route current = Inr current'"
  shows "valid_datetime current'"
proof -
  let ?rtm = "round_to_minutes options"
  from assms obtain h c1 where
    c1: "dt_add current (timedelta h 0 0) = Inr c1" and
    r: "(if truthy ?rtm then round_dt c1 ?rtm else Inr c1) = Inr current'"
    by (auto simp: advance_def split: sum.splits)
  have r': "round_dt c1 ?rtm = Inr current'"
    using r by (simp add: round_dt_not_truthy split: if_splits)
  from round_dt_valid [OF dt_add_Inr(2) [OF c1], of ?rtm] r' show ?thesis by auto
qed

lemma advance_progress:
  assumes "advance options dp hp route current = Inr current'"
    and "\<forall>h. headway_for options dp hp route current = Inr h \<longrightarrow>
           rounding_step (round_to_minutes options) \<le> h"
  shows "dt_us current < dt_us current'"
proof -
  let ?rtm = "round_to_minutes options"
  from assms(1) obtain h c1 where
    h: "headway_for options dp hp route current = Inr h" and
    c1: "dt_add current (timedelta h 0 0) = Inr c1" and
    r: "(if truthy ?rtm then round_dt c1 ?rtm else Inr c1) = Inr current'"
    by (auto simp: advance_def split: sum.splits)
  have r': "round_dt c1 ?rtm = Inr current'"
    using r by (simp add: round_dt_not_truthy split: if_splits)
  have vc1: "valid_datetime c1" and uc1: "dt_us c1 = dt_us current + h * 60000000"
    using dt_add_Inr [OF c1] by (simp_all add: timedelta_def)
  from round_dt_valid [OF vc1, of ?rtm] r'
  have lt: "dt_us c1 < dt_us current' + rounding_step ?rtm * 60000000"
    by auto
  have "rounding_step ?rtm \<le> h" using assms(2) h by simp
  then have "rounding_step ?rtm * 60000000 \<le> h * 60000000" by simp
  with lt uc1 show ?thesis by simp
qed

lemma advance_regress:
  assumes "advance options dp hp route current = Inr current'"
    and "\<forall>h. headway_for options dp hp route current = Inr h \<longrightarrow> h \<le> - 1"
  shows "dt_us current' < dt_us current"
proof -
  let ?rtm = "round_to_minutes options"
  from assms(1) obtain h c1 where
    h: "headway_for options dp hp route current = Inr h" and
    c1: "dt_add current (timedelta h 0 0) = Inr c1" and
    r: "(if truthy ?rtm then round_dt c1 ?rtm else Inr c1) = Inr current'"
    by (auto simp: advance_def split: sum.splits)
  have r': "round_dt c1 ?rtm = Inr current'"
    using r by (simp add: round_dt_not_truthy split: if_splits)
  have vc1: "valid_datetime c1" and uc1: "dt_us c1 = dt_us current + h * 60000000"
    using dt_add_Inr [OF c1] by (simp_all add: timedelta_def)
  from round_dt_valid [OF vc1, of ?rtm] r'
  have le: "dt_us current' \<le> dt_us c1"
    by auto
  have "h \<le> - 1" using assms(2) h by simp
  then have "h * 60000000 < 0" by simp
  with le uc1 show ?thesis by simp
qed

lemma floor_multiple:
  fixes g mc mt :: int
  assumes "0 < g" "mc mod g = 0" "mc \<le> mt"
  shows "mc \<le> mt - mt mod g"
proof -
  have "mc div g \<le> mt div g"
    using assms(1,3) by (simp add: zdiv_mono1)
  then have "g * (mc div g) \<le> g * (mt div g)"
    using assms(1) by (simp add: mult_left_mono)
  moreover have "g * (mc div g) = mc"
    using assms(2) by (simp add: dvd_eq_mod_eq_0)
  moreover have "g * (mt div g) = mt - mt mod g"
    by (simp add: minus_mod_eq_mult_div)
  ultimately show ?thesis by simp
qed

lemma round_mono:
  assumes "valid_time c" "valid_time t" "1 < g"
    and "minute c mod g = 0" "second c = 0" "microsecond c = 0"
    and "time_us c \<le> time_us t"
  shows "time_us c \<le> time_us (t\<lparr>minute := minute t - minute t mod g, second := 0, microsecond := 0\<rparr>)"
proof -
  have vc: "0 \<le> hour c" "0 \<le> minute c" "minute c < 60"
    using assms(1) by (auto simp: valid_time_def)
  have vt: "0 \<le> hour t" "0 \<le> minute t" "minute t < 60" "0 \<le> second t" "second t < 60"
    "0 \<le> microsecond t" "microsecond t < 1000000"
    using assms(2) by (auto simp: valid_time_def)
  have mg: "0 \<le> minute t mod g" "minute t mod g \<le> minute t"
    using assms(3) vt by (auto simp: zmod_le_nonneg_dividend)
  have le: "hour c * 60 + minute c \<le> hour t * 60 + minute t"
    using assms(5,6,7) vt unfolding time_us_def by simp
  have "hour c * 60 + minute c \<le> hour t * 60 + (minute t - minute t mod g)"
  proof (cases "hour c < hour t")
    case True
    then show ?thesis using vc mg by simp
  next
    case False
    then have "hour c = hour t" using le vc vt by simp
    moreover have "minute c \<le> minute t" using le calculation by simp
    then have "minute c \<le> minute t - minute t mod g"
      using floor_multiple [of g "minute c" "minute t"] assms(3,4) by simp
    ultimately show ?thesis by simp
  qed
  then have "(hour c * 60 + minute c) * 60000000 \<le> (hour t * 60 + (minute t - minute t mod g)) * 60000000"
    by simp
  then show ?thesis
    using assms(5,6) by (simp add: time_us_def)
qed



lemma advance_same_day:
  assumes v: "valid_datetime current"
    and al: "aligned (round_to_minutes options) (dt_time current)"
    and g: "time_le (dt_time current) (sw_end (service_window options))"
    and ve: "valid_time (sw_end (service_window options))"
    and a: "advance options dp hp route current = Inr current'"
    and hw: "\<forall>h. headway_for options dp hp route current = Inr h \<longrightarrow>
           1 \<le> h \<and> time_us (sw_end (service_window options)) + h * 60000000 < 86400000000"
  shows "valid_datetime current' \<and> aligned (round_to_minutes options) (dt_time current') \<and>
    dt_date current' = dt_date current \<and> time_us (dt_time current) \<le> time_us (dt_time current')"
proof -
  let ?rtm = "round_to_minutes options"
  from a obtain h c1 where
    h: "headway_for options dp hp route current = Inr h" and
    c1: "dt_add current (timedelta h 0 0) = Inr c1" and
    r: "(if truthy ?rtm then round_dt c1 ?rtm else Inr c1) = Inr current'"
    by (auto simp: advance_def split: sum.splits)
  have r': "round_dt c1 ?rtm = Inr current'"
    using r by (simp add: round_dt_not_truthy split: if_splits)
  have vt: "valid_time (dt_time current)"
    using v by (simp add: valid_datetime_def)
  have h1: "1 \<le> h" and h2: "time_us (sw_end (service_window options)) + h * 60000000 < 86400000000"
    using hw h by auto
  have le: "time_us (dt_time current) \<le> time_us (sw_end (service_window options))"
    using g time_le_iff [OF vt ve] by simp
  have lo: "0 \<le> time_us (dt_time current) + timedelta h 0 0"
    using time_us_range [OF vt] h1 by (simp add: timedelta_def)
  have hi: "time_us (dt_time current) + timedelta h 0 0 < 86400000000"
    using le h2 by (simp add: timedelta_def)
  have c1_eq: "c1 = \<lparr>dt_date = dt_date current,
      dt_time = time_of_us (time_us (dt_time current) + timedelta h 0 0)\<rparr>"
    using dt_add_same_day [OF v lo hi] c1 by simp
  have vc1: "valid_datetime c1"
    using dt_add_Inr(2) [OF c1] .
  have tc1: "time_us (dt_time c1) = time_us (dt_time current) + h * 60000000"
    unfolding c1_eq by (simp add: time_us_time_of_us timedelta_def)
  have dc1: "dt_date c1 = dt_date current"
    unfolding c1_eq by simp
  from round_dt_valid [OF vc1, of ?rtm] r'
  have v': "valid_datetime current'" and d': "dt_date current' = dt_date c1"
    and al': "aligned ?rtm (dt_time current')"
    by auto
  have "time_us (dt_time current) \<le> time_us (dt_time current')"
  proof (cases "\<exists>g. ?rtm = Some g \<and> 1 < g")
    case False
    then have "round_dt c1 ?rtm = Inr c1"
      by (cases ?rtm) (auto simp: round_dt_def)
    with r' have "current' = c1" by simp
    then show ?thesis using tc1 h1 by simp
  next
    case True
    then obtain g where gg: "?rtm = Some g" "1 < g" by blast
    let ?t = "dt_time c1"
    have "round_dt c1 ?rtm = Inr (c1\<lparr>dt_time := ?t\<lparr>minute := minute ?t - minute ?t mod g,
        second := 0, microsecond := 0\<rparr>\<rparr>)"
      unfolding gg by (rule round_dt_Some [OF vc1 gg(2)])
    with r' have e: "dt_time current' = ?t\<lparr>minute := minute ?t - minute ?t mod g,
        second := 0, microsecond := 0\<rparr>"
      by auto
    have alc: "minute (dt_time current) mod g = 0" "second (dt_time current) = 0"
      "microsecond (dt_time current) = 0"
      using al gg by (auto simp: aligned_def)
    have "time_us (dt_time current) \<le> time_us ?t"
      using tc1 h1 by simp
    from round_mono [OF vt _ gg(2) alc this] vc1
    show ?thesis unfolding e by (simp add: valid_datetime_def)
  qed
  with v' al' d' dc1 show ?thesis by simp
qed

section \<open>Termination\<close>

lemma loop_visits_shift:
  assumes "time_le (dt_time current) (sw_end (service_window options))"
    and "advance options dp hp route current = Inr current'"
    and "loop_visits options dp hp route current' x"
  shows "loop_visits options dp hp route current x"
  using assms(3)
proof (induction rule: loop_visits.induct)
  case visits_start
  show ?case
    by (rule loop_visits.visits_step [OF loop_visits.visits_start [OF assms(1)] assms(2) visits_start])
next
  case (visits_step c c')
  then show ?case
    by (blast intro: loop_visits.visits_step)
qed

lemma headways_used_ge_shift:
  assumes "time_le (dt_time current) (sw_end (service_window options))"
    and "advance options dp hp route current = Inr current'"
    and "headways_used_ge options dp hp route current k"
  shows "headways_used_ge options dp hp route current' k"
  using assms(3) loop_visits_shift [OF assms(1,2)]
  unfolding headways_used_ge_def by blast

lemma headways_used_le_shift:
  assumes "time_le (dt_time current) (sw_end (service_window options))"
    and "advance options dp hp route current = Inr current'"
    and "headways_used_le options dp hp route current k"
  shows "headways_used_le options dp hp route current' k"
  using assms(3) loop_visits_shift [OF assms(1,2)]
  unfolding headways_used_le_def by blast

lemma visits_progress:
  assumes "loop_visits options dp hp route start current"
    and "advance options dp hp route current = Inr current'"
  shows "(headways_used_ge options dp hp route start (rounding_step (round_to_minutes options))
            \<longrightarrow> dt_us current < dt_us current') \<and>
         (headways_used_le options dp hp route start (- 1) \<longrightarrow> dt_us current' < dt_us current)"
  using assms advance_progress [OF assms(2)] advance_regress [OF assms(2)]
  unfolding headways_used_ge_def headways_used_le_def by blast

lemma while_loop_returns_forward:
  assumes "headways_used_ge options dp hp route current (rounding_step (round_to_minutes options))"
  shows "\<exists>res. while_loop options dp hp route current schedules = Some res"
  using assms
proof (induction "nat ((MAXORDINAL + 1) * 86400000000 - dt_us current)"
    arbitrary: current schedules rule: less_induct)
  case less
  show ?case
  proof (cases "time_le (dt_time current) (sw_end (service_window options))")
    case False
    then show ?thesis by (subst while_loop.simps) simp
  next
    case True
    show ?thesis
    proof (cases "map_of schedules route")
      case None
      with True show ?thesis by (subst while_loop.simps) simp
    next
      case (Some old)
      show ?thesis
      proof (cases "advance options dp hp route current")
        case (Inl e)
        with True Some show ?thesis by (subst while_loop.simps) simp
      next
        case (Inr current')
        have "dt_us current < dt_us current'"
          using visits_progress [OF loop_visits.visits_start [OF True] Inr] less.prems by simp
        then have "nat ((MAXORDINAL + 1) * 86400000000 - dt_us current') <
            nat ((MAXORDINAL + 1) * 86400000000 - dt_us current)"
          using dt_us_bounds(2) [OF advance_valid [OF Inr]] by simp
        from less.hyps [OF this headways_used_ge_shift [OF True Inr less.prems]]
        obtain res where "while_loop options dp hp route current'
            (AList.update route (old @ [current]) schedules) = Some res"
          by blast
        with True Some Inr show ?thesis by (subst while_loop.simps) simp
      qed
    qed
  qed
qed

lemma while_loop_returns_backward:
  assumes "headways_used_le options dp hp route current (- 1)"
  shows "\<exists>res. while_loop options dp hp route current schedules = Some res"
  using assms
proof (induction "nat (dt_us current)" arbitrary: current schedules rule: less_induct)
  case less
  show ?case
  proof (cases "time_le (dt_time current) (sw_end (service_window options))")
    case False
    then show ?thesis by (subst while_loop.simps) simp
  next
    case True
    show ?thesis
    proof (cases "map_of schedules route")
      case None
      with True show ?thesis by (subst while_loop.simps) simp
    next
      case (Some old)
      show ?thesis
      proof (cases "advance options dp hp route current")
        case (Inl e)
        with True Some show ?thesis by (subst while_loop.simps) simp
      next
        case (Inr current')
        have "dt_us current' < dt_us current"
          using visits_progress [OF loop_visits.visits_start [OF True] Inr] less.prems by simp
        then have "nat (dt_us current') < nat (dt_us current)"
          using dt_us_bounds(1) [OF advance_valid [OF Inr]] by simp
        from less.hyps [OF this headways_used_le_shift [OF True Inr less.prems]]
        obtain res where "while_loop options dp hp route current'
            (AList.update route (old @ [current]) schedules) = Some res"
          by blast
        with True Some Inr show ?thesis by (subst while_loop.simps) simp
      qed
    qed
  qed
qed

lemma for_routes_returns:
  assumes "round_dt (combine service_day (sw_start (service_window options)))
      (round_to_minutes options) = Inr c0"
    and "\<forall>r \<in> set routes.
           headways_used_ge options dp hp r c0 (rounding_step (round_to_minutes options)) \<or>
           headways_used_le options dp hp r c0 (- 1)"
  shows "\<exists>res. for_routes options service_day dp hp routes s = Some res"
  using assms(2)
proof (induction routes arbitrary: s)
  case Nil
  then show ?case by simp
next
  case (Cons a routes)
  have "\<exists>res. while_loop options dp hp a c0 s = Some res"
    using Cons.prems while_loop_returns_forward [of options dp hp a c0 s]
      while_loop_returns_backward [of options dp hp a c0 s] by auto
  then obtain res where w: "while_loop options dp hp a c0 s = Some res" by blast
  show ?case
  proof (cases res)
    case (Inl e)
    with assms(1) w show ?thesis by simp
  next
    case (Inr s')
    have "\<exists>res. for_routes options service_day dp hp routes s' = Some res"
      by (rule Cons.IH) (use Cons.prems in simp)
    with assms(1) w Inr show ?thesis by simp
  qed
qed


lemma loop_visits_in_window:
  assumes "loop_visits options dp hp route start current"
  shows "time_le (dt_time current) (sw_end (service_window options))"
  using assms by (induction rule: loop_visits.induct) auto

lemma round_ten_headway:
  assumes "9 \<le> hour (dt_time current)" "hour (dt_time current) < 12"
  shows "headway_for options_round_ten (provider_or_default None) (policy_or_default None) r current =
    Inr 15"
  using assms
  by (simp add: headway_for_def options_round_ten_def provider_or_default_def policy_or_default_def
      get_demand_score_def SimpleDemandByHour_init_def default_by_hour_apply get_headway_minutes_def
      ThresholdHeadwayPolicy_init_def default_thresholds_def)

lemma round_ten_visits:
  assumes "valid_date d"
    and "loop_visits options_round_ten (provider_or_default None) (policy_or_default None) r
          (combine d (time_hm 9 0)) current"
  shows "valid_datetime current \<and> aligned (Some 10) (dt_time current) \<and>
    9 \<le> hour (dt_time current) \<and> hour (dt_time current) \<le> 10"
  using assms(2)
proof (induction rule: loop_visits.induct)
  case visits_start
  show ?case
    using assms(1)
    by (simp add: valid_datetime_def valid_time_def combine_def time_hm_def aligned_def)
next
  case (visits_step c c')
  let ?end = "sw_end (service_window options_round_ten)"
  have e: "?end = time_hm 10 0" and rt: "round_to_minutes options_round_ten = Some 10"
    by (simp_all add: options_round_ten_def)
  have ve: "valid_time ?end"
    unfolding e by (simp add: valid_time_def time_hm_def)
  have g: "time_le (dt_time c) ?end"
    by (rule loop_visits_in_window [OF visits_step.hyps(1)])
  have h15: "headway_for options_round_ten (provider_or_default None) (policy_or_default None) r c =
      Inr 15"
    by (rule round_ten_headway) (use visits_step.IH in auto)
  have hw: "\<forall>h. headway_for options_round_ten (provider_or_default None) (policy_or_default None) r c = Inr h
      \<longrightarrow> 1 \<le> h \<and> time_us ?end + h * 60000000 < 86400000000"
    unfolding h15 e by (simp add: time_us_def time_hm_def)
  from visits_step.IH have v: "valid_datetime c" and
    al: "aligned (round_to_minutes options_round_ten) (dt_time c)"
    by (simp_all add: rt)
  from advance_same_day [OF v al g ve visits_step.hyps(2) hw]
  have v': "valid_datetime c'" and al': "aligned (Some 10) (dt_time c')"
    and le: "time_us (dt_time c) \<le> time_us (dt_time c')"
    by (simp_all add: rt)
  have vt: "0 \<le> minute (dt_time c)" "0 \<le> second (dt_time c)" "0 \<le> microsecond (dt_time c)"
    "minute (dt_time c') < 60" "second (dt_time c') < 60" "microsecond (dt_time c') < 1000000"
    using v v' by (auto simp: valid_datetime_def valid_time_def)
  have "9 * 3600000000 \<le> time_us (dt_time c)"
    using visits_step.IH vt by (simp add: time_us_def)
  moreover have "time_us (dt_time c') < (hour (dt_time c') + 1) * 3600000000"
    using vt by (simp add: time_us_def)
  ultimately have "9 \<le> hour (dt_time c')"
    using le by simp
  moreover have "hour (dt_time c') \<le> 10"
    using visits_step.hyps(3) unfolding e
    by (auto simp: time_le_def time_tuple_def time_hm_def less_eq_prod_def)
  ultimately show ?case using v' al' by simp
qed

text \<open>
  Claim C1, amended. Let \<open>c0\<close> be the first value of \<open>current\<close>: the window start on the
  service day after \<open>_round_dt\<close> (there is one whenever the day and the start time are
  well formed). For every options value, service day and route list,
  \<open>generate_daily_schedule\<close> returns (a schedule, or an error: the configuration error,
  an error of the policy, or the \<open>OverflowError\<close> of a timestamp outside the years 1 to
  9999) provided that, for each route, the headways the loop uses (the fixed headway, or
  the policy's value at the timestamps the loop visits) are all at least the rounding
  step (1 minute, and \<open>min g 60\<close> minutes under a rounding granularity \<open>g > 1\<close>), or are
  all at most minus 1 minute. In the first case every iteration moves \<open>current\<close>
  strictly forward, in the second strictly backward. The generator does not clamp the
  headway: a headway of 0, or a positive one below the rounding step, can leave
  \<open>current\<close> where it is.
\<close>

theorem generate_returns:
  assumes "round_dt (combine service_day (sw_start (service_window options)))
      (round_to_minutes options) = Inr c0"
    and "\<forall>r \<in> set routes.
           headways_used_ge options (provider_or_default demand_provider)
             (policy_or_default headway_policy) r c0 (rounding_step (round_to_minutes options)) \<or>
           headways_used_le options (provider_or_default demand_provider)
             (policy_or_default headway_policy) r c0 (- 1)"
  shows "(\<exists>res. generate_daily_schedule routes service_day options demand_provider headway_policy =
            Some res) \<and>
    (\<forall>r current current'.
       loop_visits options (provider_or_default demand_provider) (policy_or_default headway_policy)
         r c0 current \<longrightarrow>
       advance options (provider_or_default demand_provider) (policy_or_default headway_policy)
         r current = Inr current' \<longrightarrow>
       (headways_used_ge options (provider_or_default demand_provider)
          (policy_or_default headway_policy) r c0 (rounding_step (round_to_minutes options))
          \<longrightarrow> dt_us current < dt_us current') \<and>
       (headways_used_le options (provider_or_default demand_provider)
          (policy_or_default headway_policy) r c0 (- 1)
          \<longrightarrow> dt_us current' < dt_us current))"
proof -
  have "\<exists>res. generate_daily_schedule routes service_day options demand_provider headway_policy =
      Some res"
    using for_routes_returns [OF assms]
    by (simp add: generate_daily_schedule_def)
  then show ?thesis
    using visits_progress by blast
qed

theorem generate_returns_witness:
  "(\<exists>res. generate_daily_schedule [''Ruta_Centro'', ''Ruta_Norte''] 739000 options_round_ten
      None None = Some res) \<and>
   (\<exists>res. generate_daily_schedule [''Ruta_Centro''] 739000 options_negative_headway
      None None = Some res)"
proof -
  let ?dp = "provider_or_default None" and ?hp = "policy_or_default None"
  have d: "valid_date 739000"
    by (simp add: valid_date_def MAXORDINAL_def)
  have r10: "round_dt (combine 739000 (sw_start (service_window options_round_ten)))
      (round_to_minutes options_round_ten) = Inr (combine 739000 (time_hm 9 0))"
    by (simp add: options_round_ten_def round_dt_def combine_def time_hm_def dt_sub_def
        dt_add_def dt_us_def time_us_def timedelta_def dt_of_us_def time_of_us_def MAXORDINAL_def Let_def)
  have s10: "rounding_step (round_to_minutes options_round_ten) = 10"
    by (simp add: options_round_ten_def rounding_step_def)
  have ge: "headways_used_ge options_round_ten ?dp ?hp r (combine 739000 (time_hm 9 0)) 10" for r
    unfolding headways_used_ge_def
  proof (intro allI impI)
    fix current h
    assume vis: "loop_visits options_round_ten ?dp ?hp r (combine 739000 (time_hm 9 0)) current"
      and h: "headway_for options_round_ten ?dp ?hp r current = Inr h"
    from round_ten_visits [OF d vis] have "9 \<le> hour (dt_time current)" "hour (dt_time current) < 12"
      by auto
    from round_ten_headway [OF this, of r] h show "10 \<le> h" by simp
  qed
  have h10: "\<forall>r \<in> set [''Ruta_Centro'', ''Ruta_Norte''].
      headways_used_ge options_round_ten ?dp ?hp r (combine 739000 (time_hm 9 0))
        (rounding_step (round_to_minutes options_round_ten)) \<or>
      headways_used_le options_round_ten ?dp ?hp r (combine 739000 (time_hm 9 0)) (- 1)"
    unfolding s10 using ge by blast
  have rn: "round_dt (combine 739000 (sw_start (service_window options_negative_headway)))
      (round_to_minutes options_negative_headway) = Inr (combine 739000 (time_hm 7 0))"
    by (simp add: options_negative_headway_def round_dt_def)
  have hn: "\<forall>r \<in> set [''Ruta_Centro''].
      headways_used_ge options_negative_headway ?dp ?hp r (combine 739000 (time_hm 7 0))
        (rounding_step (round_to_minutes options_negative_headway)) \<or>
      headways_used_le options_negative_headway ?dp ?hp r (combine 739000 (time_hm 7 0)) (- 1)"
    by (simp add: headways_used_le_def headway_for_def options_negative_headway_def)
  show ?thesis
    using generate_returns [OF r10 h10] generate_returns [OF rn hn] by blast
qed

text \<open>
  The claim as stated fails in both of its parts: with rounding to 15 minutes the
  default policy's 8 minutes are rounded away (07:08 becomes 07:00 again), and a fixed
  headway of 0 is used as it is; in both runs the loop never ends.
\<close>

theorem termination_counterexample:
  "generate_daily_schedule [''R''] 739000 options_coarse_rounding None None = None \<and>
   generate_daily_schedule [''R''] 739000 options_zero_headway None None = None"
  using rounding_never_terminates zero_headway_never_terminates by simp

section \<open>Departures within the window, in increasing order\<close>









end
